theory Spec2Isabelle
  imports Main
begin

section \<open>The google-books client (lib/google-books.js)\<close>

text \<open>
  A shallow embedding of the client built by \<open>GoogleBooks(options)\<close>: the settings merged at
  construction, the private single-page fetcher \<open>searchSingle\<close>, the paginator \<open>search\<close> and
  the field adapter \<open>searchBy\<close>. Callbacks are modelled by return values: a call returns what it
  hands to \<open>next\<close> (\<open>Inl\<close> the error, \<open>Inr\<close> the value) together with the state it leaves.
  The HTTP transport is a parameter; the requests handed to it are recorded in the state.
\<close>

subsection \<open>JavaScript values\<close>

text \<open>
  The values a caller can put into an option bag. Numbers are modelled as integers (page counts
  and offsets); fractions, NaN and infinities are outside the model.
\<close>

datatype jsval = Undefined | Null | Bool bool | Num int | Str string

text \<open>Truthiness, as used by \<open>a || b\<close>.\<close>

fun truthy :: "jsval \<Rightarrow> bool" where
  "truthy Undefined = False"
| "truthy Null = False"
| "truthy (Bool b) = b"
| "truthy (Num n) = (n \<noteq> 0)"
| "truthy (Str s) = (s \<noteq> [])"

definition quote :: char where
  "quote = CHR 0x22"

subsection \<open>Decimal numerals\<close>

definition digit_char :: "nat \<Rightarrow> char" where
  "digit_char d = ''0123456789'' ! d"

fun show_nat :: "nat \<Rightarrow> string" where
  "show_nat n = (if n < 10 then [digit_char n] else show_nat (n div 10) @ [digit_char (n mod 10)])"

declare show_nat.simps [simp del]

definition show_int :: "int \<Rightarrow> string" where
  "show_int i = (if i < 0 then CHR ''-'' # show_nat (nat (- i)) else show_nat (nat i))"

definition digit_val :: "char \<Rightarrow> nat option" where
  "digit_val c = map_of
     [(CHR ''0'', 0), (CHR ''1'', 1), (CHR ''2'', 2), (CHR ''3'', 3), (CHR ''4'', 4),
      (CHR ''5'', 5), (CHR ''6'', 6), (CHR ''7'', 7), (CHR ''8'', 8), (CHR ''9'', 9)] c"

definition is_digit :: "char \<Rightarrow> bool" where
  "is_digit c = (digit_val c \<noteq> None)"

definition is_space :: "char \<Rightarrow> bool" where
  "is_space c = (c \<in> set [CHR '' '', CHR 0x09, CHR 0x0A, CHR 0x0B, CHR 0x0C, CHR 0x0D])"

text \<open>The value of a run of decimal digits, read left to right.\<close>

fun digits_value :: "nat \<Rightarrow> string \<Rightarrow> nat" where
  "digits_value acc [] = acc"
| "digits_value acc (c # cs) =
     (case digit_val c of None \<Rightarrow> acc | Some d \<Rightarrow> digits_value (10 * acc + d) cs)"

text \<open>
  \<open>parseInt(s, 10)\<close>: leading white space is skipped, one sign is read, then the longest run
  of digits; \<open>None\<close> stands for NaN (no digit where a number has to start).
\<close>

definition parse_unsigned :: "string \<Rightarrow> nat option" where
  "parse_unsigned s = (case s of [] \<Rightarrow> None
     | c # cs \<Rightarrow> if is_digit c then Some (digits_value 0 s) else None)"

definition parseInt :: "string \<Rightarrow> int option" where
  "parseInt s =
     (case dropWhile is_space s of
        [] \<Rightarrow> None
      | c # cs \<Rightarrow>
          if c = CHR ''-'' then map_option (\<lambda>n. - int n) (parse_unsigned cs)
          else if c = CHR ''+'' then map_option int (parse_unsigned cs)
          else map_option int (parse_unsigned (c # cs)))"

subsection \<open>External packages\<close>

text \<open>
  The packages \<open>validator\<close>, \<open>extend\<close>, \<open>underscore\<close>, \<open>querystring\<close>, \<open>memoizee\<close>,
  \<open>async\<close> and \<open>request\<close> are dependencies, not sources of this repository. Each is modelled
  by the part of its contract the client relies on.
\<close>

datatype error =
    InvalidQuery        \<comment> \<open>\<open>Error('Invalid search term')\<close>\<close>
  | InvalidIdentifier   \<comment> \<open>\<open>Error('Invalid ID to search by')\<close>\<close>
  | MissingField        \<comment> \<open>\<open>Error('Must provide search field')\<close>\<close>
  | UnsupportedField    \<comment> \<open>\<open>Error('Invalid field to search by')\<close>\<close>
  | LoggerTypeError     \<comment> \<open>the TypeError of calling \<open>settings.logger.log\<close> when it is not a function\<close>
  | TransportError string  \<comment> \<open>whatever the HTTP layer reports\<close>

text \<open>
  Modelled from the spec: \<open>check(v, msg).notNull()\<close> of the validator package, which is not
  part of the sources. The value must be non-null; \<open>None\<close> stands for null and undefined.
\<close>

definition check_notNull :: "error \<Rightarrow> string option \<Rightarrow> error + string" where
  "check_notNull msg v = (case v of None \<Rightarrow> Inl msg | Some s \<Rightarrow> Inr s)"

text \<open>
  Modelled from the spec: \<open>check(v, msg).notNull().notEmpty()\<close> of the validator package. The
  value must be non-null and non-empty.
\<close>

definition check_notNull_notEmpty :: "error \<Rightarrow> string option \<Rightarrow> error + string" where
  "check_notNull_notEmpty msg v =
     (case check_notNull msg v of
        Inl e \<Rightarrow> Inl e
      | Inr s \<Rightarrow> if s = [] then Inl msg else Inr s)"

text \<open>
  Modelled from the spec: \<open>sanitize(v).toInt()\<close> of the validator package. The value is
  coerced to an integer; input that is not numeric becomes 0. A string is read the way
  \<open>parseInt\<close> reads it, so a number it begins with is its value.
\<close>

fun toInt :: "jsval \<Rightarrow> int" where
  "toInt (Num n) = n"
| "toInt (Str s) = (case parseInt s of None \<Rightarrow> 0 | Some n \<Rightarrow> n)"
| "toInt v = 0"

text \<open>\<open>_.isNumber\<close> of underscore.\<close>

fun isNumber :: "jsval \<Rightarrow> bool" where
  "isNumber (Num n) = True"
| "isNumber v = False"

text \<open>
  An object's properties in the order JavaScript enumerates them: the names that are array
  indices (the canonical decimal text of an integer from 0 to 4294967294) come first, in
  ascending numeric order, then every other name in the order of insertion. A list of this
  type has no name twice.
\<close>

type_synonym props = "(string \<times> jsval) list"

definition digit_num :: "char \<Rightarrow> nat" where
  "digit_num c = (case digit_val c of None \<Rightarrow> 0 | Some d \<Rightarrow> d)"

text \<open>Decimal digits without a leading zero, the text \<open>0\<close> itself apart.\<close>

definition canonical_digits :: "string \<Rightarrow> bool" where
  "canonical_digits k =
     (case k of
        [] \<Rightarrow> False
      | c # cs \<Rightarrow> list_all is_digit k \<and> (if c = CHR ''0'' then cs = [] else True))"

text \<open>The numeric order of two canonical digit texts: the shorter is the smaller.\<close>

fun digits_less :: "string \<Rightarrow> string \<Rightarrow> bool" where
  "digits_less (a # as) (b # bs) =
     (if a = b then digits_less as bs else digit_num a < digit_num b)"
| "digits_less as bs = False"

definition index_less :: "string \<Rightarrow> string \<Rightarrow> bool" where
  "index_less a b = (if length a = length b then digits_less a b else length a < length b)"

definition is_index :: "string \<Rightarrow> bool" where
  "is_index k = (canonical_digits k \<and> index_less k ''4294967295'')"

text \<open>Assigning to a property that exists keeps its place.\<close>

fun replace_prop :: "string \<Rightarrow> jsval \<Rightarrow> props \<Rightarrow> props" where
  "replace_prop k v [] = []"
| "replace_prop k v (p # ps) = (if fst p = k then (k, v) # ps else p # replace_prop k v ps)"

text \<open>A new array index goes after the smaller indices and before everything else.\<close>

fun insert_index :: "string \<Rightarrow> jsval \<Rightarrow> props \<Rightarrow> props" where
  "insert_index k v [] = [(k, v)]"
| "insert_index k v (p # ps) =
     (if is_index (fst p) \<and> index_less (fst p) k then p # insert_index k v ps
      else (k, v) # p # ps)"

text \<open>The assignment \<open>obj[k] = v\<close>.\<close>

definition set_prop :: "string \<Rightarrow> jsval \<Rightarrow> props \<Rightarrow> props" where
  "set_prop k v ps =
     (if k \<in> set (map fst ps) then replace_prop k v ps
      else if is_index k then insert_index k v ps
      else ps @ [(k, v)])"

text \<open>
  \<open>extend(target, source)\<close> of the extend package: every property of the source whose value
  is not undefined is assigned to the target, which is modified in place and returned. The
  caller of this model stores the result where the source stores the target.
\<close>

fun extend_obj :: "props \<Rightarrow> props \<Rightarrow> props" where
  "extend_obj target [] = target"
| "extend_obj target ((k, v) # src) =
     extend_obj (if v = Undefined then target else set_prop k v target) src"

text \<open>\<open>querystring.escape\<close>: every byte that is not unreserved becomes \<open>%XX\<close>.\<close>

definition unreserved :: "char \<Rightarrow> bool" where
  "unreserved c = (c \<in> set
     (''ABCDEFGHIJKLMNOPQRSTUVWXYZ'' @ ''abcdefghijklmnopqrstuvwxyz'' @ ''0123456789'' @
      ''-_.!~*()'' @ [CHR 0x27]))"

definition hex_digit :: "nat \<Rightarrow> char" where
  "hex_digit d = ''0123456789ABCDEF'' ! d"

definition escape_char :: "char \<Rightarrow> string" where
  "escape_char c =
     (if unreserved c then [c]
      else [CHR ''%'', hex_digit (of_char c div 16), hex_digit (of_char c mod 16)])"

definition escape :: "string \<Rightarrow> string" where
  "escape s = concat (map escape_char s)"

text \<open>\<open>stringifyPrimitive\<close> of querystring: strings, booleans and numbers; anything else is empty.\<close>

fun stringifyPrimitive :: "jsval \<Rightarrow> string" where
  "stringifyPrimitive (Str s) = s"
| "stringifyPrimitive (Bool b) = (if b then ''true'' else ''false'')"
| "stringifyPrimitive (Num n) = show_int n"
| "stringifyPrimitive v = []"

fun join_amp :: "string list \<Rightarrow> string" where
  "join_amp [] = []"
| "join_amp [x] = x"
| "join_amp (x # y # ys) = x @ ''&'' @ join_amp (y # ys)"

definition qs_stringify :: "props \<Rightarrow> string" where
  "qs_stringify ps =
     join_amp (map (\<lambda>(k, v). escape k @ ''='' @ escape (stringifyPrimitive v)) ps)"

text \<open>
  \<open>String.prototype.replace\<close> with a string pattern: only the first occurrence is replaced.
\<close>

fun replace_first :: "string \<Rightarrow> string \<Rightarrow> string \<Rightarrow> string" where
  "replace_first pat rep [] = (if pat = [] then rep else [])"
| "replace_first pat rep (c # cs) =
     (if take (length pat) (c # cs) = pat then rep @ drop (length pat) (c # cs)
      else c # replace_first pat rep cs)"

subsection \<open>Settings and construction (lines 21 to 46)\<close>

text \<open>
  The logger is either the default \<open>function () {}\<close>, a function object without a \<open>log\<close>
  property, or a value supplied by the caller that has a callable \<open>log\<close>. What is logged has
  no effect on the client and is not recorded.
\<close>

datatype logger = NoopFunction | LogObject

fun has_log :: "logger \<Rightarrow> bool" where
  "has_log NoopFunction = False"
| "has_log LogObject = True"

text \<open>
  Of the cache options only \<open>maxAge\<close> is a parameter of the model; \<open>async: true\<close>,
  \<open>length: 1\<close> and \<open>primitive: true\<close> are fixed at their defaults.
\<close>

record Settings =
  queryParams :: props
  maxAge :: nat
  setsToFetch :: jsval
  apiUrl :: string
  logger :: logger

definition defaults :: Settings where
  "defaults =
     \<lparr>queryParams = [(''maxResults'', Num 40), (''startIndex'', Num 0),
                     (''langRestrict'', Str ''en''), (''printType'', Str ''books'')],
      maxAge = 0,
      setsToFetch = Num 1,
      apiUrl = ''https://www.googleapis.com/books/v1/volumes'',
      logger = NoopFunction\<rparr>"

text \<open>The option bag of the constructor: an absent property is \<open>None\<close>, \<open>Undefined\<close> or \<open>[]\<close>.\<close>

record UserOptions =
  opt_queryParams :: props
  opt_maxAge :: "nat option"
  opt_setsToFetch :: jsval
  opt_apiUrl :: "string option"
  opt_logger :: "logger option"

definition no_options :: UserOptions where
  "no_options = \<lparr>opt_queryParams = [], opt_maxAge = None, opt_setsToFetch = Undefined,
                  opt_apiUrl = None, opt_logger = None\<rparr>"

text \<open>\<open>extend(true, defaults, options || {})\<close>, line 40.\<close>

definition merge_settings :: "UserOptions \<Rightarrow> Settings" where
  "merge_settings opts =
     \<lparr>queryParams = extend_obj (queryParams defaults) (opt_queryParams opts),
      maxAge = (case opt_maxAge opts of None \<Rightarrow> maxAge defaults | Some a \<Rightarrow> a),
      setsToFetch = (if opt_setsToFetch opts = Undefined then setsToFetch defaults
                     else opt_setsToFetch opts),
      apiUrl = (case opt_apiUrl opts of None \<Rightarrow> apiUrl defaults | Some u \<Rightarrow> u),
      logger = (case opt_logger opts of None \<Rightarrow> logger defaults | Some l \<Rightarrow> l)\<rparr>"

subsection \<open>Requests, cache and state\<close>

type_synonym body = string

record requestOptions =
  uri :: string
  qs :: props
  json :: bool

text \<open>
  The transport answers a request with an error or a body; its answer may depend on the
  requests it has seen before.
\<close>

type_synonym transport = "requestOptions list \<Rightarrow> requestOptions \<Rightarrow> error + body"

text \<open>
  The state of one client and of the world around it: the settings object, the lazily created
  \<open>searchCache\<close> (\<open>None\<close> is \<open>null\<close>; an entry is a key, the body, and the time it was
  stored), the clock in milliseconds, and the requests handed to the transport so far.
\<close>

record state =
  settings :: Settings
  searchCache :: "(string \<times> body \<times> nat) list option"
  now :: nat
  sent :: "requestOptions list"

text \<open>The closure state right after \<open>GoogleBooks(options)\<close> returns.\<close>

definition GoogleBooks :: "UserOptions \<Rightarrow> nat \<Rightarrow> state" where
  "GoogleBooks opts t = \<lparr>settings = merge_settings opts, searchCache = None, now = t, sent = []\<rparr>"


text \<open>
  Modelled from the spec: the memoizee package. The key is the first argument; an entry older
  than the time-to-live is treated as absent, and a time-to-live of zero keeps entries for the
  lifetime of the process. Only bodies are stored: a call that ends in an error leaves no entry.
\<close>

definition entry_valid :: "nat \<Rightarrow> nat \<Rightarrow> nat \<Rightarrow> bool" where
  "entry_valid age_limit t stored = (age_limit = 0 \<or> t \<le> stored + age_limit)"

text \<open>
  Modelled from the spec: the lookup of the memoized function. An entry answers a call when its
  key is the call's first argument and it is not older than the time-to-live.
\<close>

definition cache_get :: "state \<Rightarrow> string \<Rightarrow> body option" where
  "cache_get s key =
     (case searchCache s of
        None \<Rightarrow> None
      | Some entries \<Rightarrow>
          (case map_of entries key of
             None \<Rightarrow> None
           | Some (b, stored) \<Rightarrow>
               if entry_valid (maxAge (settings s)) (now s) stored then Some b else None))"

text \<open>
  Lines 83 to 96: the cache is created on first use; a valid entry answers the call, otherwise
  the memoized function hands the request to the transport and a body is stored under the key.
\<close>

definition searchCache_call ::
  "transport \<Rightarrow> string \<Rightarrow> requestOptions \<Rightarrow> state \<Rightarrow> (error + body) \<times> state" where
  "searchCache_call tr key req s0 =
     (let entries = (case searchCache s0 of None \<Rightarrow> [] | Some c \<Rightarrow> c);
          s = s0\<lparr>searchCache := Some entries\<rparr>
      in case cache_get s key of
           Some b \<Rightarrow> (Inr b, s)
         | None \<Rightarrow>
             (case tr (sent s) req of
                Inl err \<Rightarrow> (Inl err, s\<lparr>sent := sent s @ [req]\<rparr>)
              | Inr b \<Rightarrow>
                  (Inr b, s\<lparr>sent := sent s @ [req],
                             searchCache := Some ((key, b, now s) # entries)\<rparr>)))"

subsection \<open>searchSingle (lines 55 to 100)\<close>

text \<open>
  The option bag of a call. The query and the field are strings or absent (\<open>None\<close> is null or
  undefined); the start index and the page-set count are arbitrary values.
\<close>

record options =
  query :: "string option"
  startIndex :: jsval
  sets :: jsval
  field :: "string option"

text \<open>Lines 64 to 66.\<close>

definition normalise_startIndex :: "jsval \<Rightarrow> int" where
  "normalise_startIndex v =
     (if isNumber v then (case v of Num n \<Rightarrow> (if n < 0 then 0 else n) | _ \<Rightarrow> 0) else 0)"

text \<open>Lines 76 to 81: the resource of the request, the base URL or the one of an identifier.\<close>

definition resource_uri :: "string \<Rightarrow> string \<Rightarrow> error + string" where
  "resource_uri base q =
     (if take 3 q = ''id:'' then
        (let ident = replace_first [quote] [] (replace_first ''id:'' [] q)
         in case check_notNull_notEmpty InvalidIdentifier (Some ident) of
              Inl e \<Rightarrow> Inl e
            | Inr i \<Rightarrow> Inr (base @ ''/'' @ i))
      else Inr base)"

text \<open>
  Lines 60 to 81: validation, the call of the logger, the start index, and the request options.
  The query parameters are merged by \<open>extend(settings.queryParams, {...})\<close>, whose target is
  the settings' own object: the state returned holds the merged parameters.
\<close>

definition buildRequest :: "options \<Rightarrow> state \<Rightarrow> (error + requestOptions) \<times> state" where
  "buildRequest opts s =
     (case check_notNull_notEmpty InvalidQuery (query opts) of
        Inl e \<Rightarrow> (Inl e, s)
      | Inr q \<Rightarrow>
          if \<not> has_log (logger (settings s)) then (Inl LoggerTypeError, s)
          else
            (let si = normalise_startIndex (startIndex opts);
                 params = extend_obj (queryParams (settings s))
                            [(''q'', Str q), (''startIndex'', Num si)];
                 s1 = s\<lparr>settings := (settings s)\<lparr>queryParams := params\<rparr>\<rparr>
             in case resource_uri (apiUrl (settings s)) q of
                  Inl e \<Rightarrow> (Inl e, s1)
                | Inr u \<Rightarrow> (Inr \<lparr>uri = u, qs = params, json = True\<rparr>, s1)))"

text \<open>Line 82.\<close>

definition fullUri :: "requestOptions \<Rightarrow> string" where
  "fullUri req = uri req @ ''?'' @ qs_stringify (qs req)"

definition searchSingle :: "transport \<Rightarrow> options \<Rightarrow> state \<Rightarrow> (error + body) \<times> state" where
  "searchSingle tr opts s =
     (case buildRequest opts s of
        (Inl e, s1) \<Rightarrow> (Inl e, s1)
      | (Inr req, s1) \<Rightarrow> searchCache_call tr (fullUri req) req s1)"

subsection \<open>search (lines 109 to 137)\<close>

text \<open>
  Modelled from the spec: \<open>async.series\<close> of the async package, which is not part of the
  sources. The jobs run strictly one after the other, each in the state the one before left;
  the first error ends the run and is the only thing handed to the final callback, otherwise
  the results are handed on in the order of the jobs.
\<close>

fun series :: "(state \<Rightarrow> (error + body) \<times> state) list \<Rightarrow> state \<Rightarrow> (error + body list) \<times> state" where
  "series [] s = (Inr [], s)"
| "series (job # jobs) s =
     (case job s of
        (Inl e, s1) \<Rightarrow> (Inl e, s1)
      | (Inr b, s1) \<Rightarrow>
          (case series jobs s1 of
             (Inl e, s2) \<Rightarrow> (Inl e, s2)
           | (Inr bs, s2) \<Rightarrow> (Inr (b # bs), s2)))"

text \<open>Lines 114 to 120: a copy of the options with the start index replaced.\<close>

definition createJob ::
  "transport \<Rightarrow> int \<Rightarrow> options \<Rightarrow> state \<Rightarrow> (error + body) \<times> state" where
  "createJob tr start opts = searchSingle tr (opts\<lparr>startIndex := Num start\<rparr>)"

text \<open>Lines 111 to 113: the number of pages.\<close>

definition page_count :: "Settings \<Rightarrow> options \<Rightarrow> int" where
  "page_count st opts =
     toInt (if truthy (sets opts) then sets opts else setsToFetch st)"

definition increment :: int where
  "increment = 40"

definition search :: "transport \<Rightarrow> options \<Rightarrow> state \<Rightarrow> (error + body list) \<times> state" where
  "search tr opts s =
     series (map (\<lambda>i. createJob tr (increment * int i) opts)
               [0 ..< nat (page_count (settings s) opts)]) s"

subsection \<open>searchBy (lines 145 to 172)\<close>

text \<open>The own properties of the \<open>fields\<close> object literal.\<close>

definition fields_obj :: "(string \<times> string) list" where
  "fields_obj =
     [(''title'', ''intitle:''), (''author'', ''inauthor:''), (''publisher'', ''inpublisher:''),
      (''subject'', ''subject:''), (''isbn'', ''isbn:''), (''lccn'', ''lccn:''),
      (''oclc'', ''oclc:''), (''id'', ''id:'')]"

text \<open>
  \<open>fields\<close> is an object literal, so \<open>fields[name]\<close> also finds what it inherits from
  \<open>Object.prototype\<close>. Each inherited value is a function or an object, hence truthy; it is
  listed with the text it turns into when a string is appended to it.
\<close>

definition native_function :: "string \<Rightarrow> string" where
  "native_function name = ''function '' @ name @ ''() { [native code] }''"

definition object_prototype :: "(string \<times> string) list" where
  "object_prototype =
     [(''constructor'', native_function ''Object''),
      (''toString'', native_function ''toString''),
      (''toLocaleString'', native_function ''toLocaleString''),
      (''valueOf'', native_function ''valueOf''),
      (''hasOwnProperty'', native_function ''hasOwnProperty''),
      (''isPrototypeOf'', native_function ''isPrototypeOf''),
      (''propertyIsEnumerable'', native_function ''propertyIsEnumerable''),
      (''__defineGetter__'', native_function ''__defineGetter__''),
      (''__defineSetter__'', native_function ''__defineSetter__''),
      (''__lookupGetter__'', native_function ''__lookupGetter__''),
      (''__lookupSetter__'', native_function ''__lookupSetter__''),
      (''__proto__'', ''[object Object]'')]"

definition fields_get :: "string \<Rightarrow> string option" where
  "fields_get name =
     (case map_of fields_obj name of
        Some p \<Rightarrow> Some p
      | None \<Rightarrow> map_of object_prototype name)"

definition searchBy :: "transport \<Rightarrow> options \<Rightarrow> state \<Rightarrow> (error + body list) \<times> state" where
  "searchBy tr opts s =
     (case check_notNull_notEmpty InvalidQuery (query opts) of
        Inl e \<Rightarrow> (Inl e, s)
      | Inr q \<Rightarrow>
          (case check_notNull MissingField (field opts) of
             Inl e \<Rightarrow> (Inl e, s)
           | Inr f \<Rightarrow>
               (case fields_get f of
                  None \<Rightarrow> (Inl UnsupportedField, s)
                | Some p \<Rightarrow>
                    if \<not> has_log (logger (settings s)) then (Inl LoggerTypeError, s)
                    else search tr \<lparr>query = Some (p @ [quote] @ q @ [quote]),
                                     startIndex = Undefined, sets = Undefined,
                                     field = None\<rparr> s)))"

subsection \<open>Sample clients and transports\<close>

text \<open>A client built with a logger that has a \<open>log\<close> method, and one built with no options.\<close>

definition logging_client :: state where
  "logging_client = GoogleBooks (no_options\<lparr>opt_logger := Some LogObject\<rparr>) 0"

definition default_client :: state where
  "default_client = GoogleBooks no_options 0"

text \<open>A client built with \<open>{setsToFetch: 0}\<close> and nothing else.\<close>

definition zero_sets_client :: state where
  "zero_sets_client = GoogleBooks (no_options\<lparr>opt_setsToFetch := Num 0\<rparr>) 0"

text \<open>A transport that answers every request with a body naming the start index asked for.\<close>

definition page_transport :: transport where
  "page_transport hist req =
     Inr (''page '' @ stringifyPrimitive
            (case map_of (qs req) ''startIndex'' of None \<Rightarrow> Undefined | Some v \<Rightarrow> v))"

text \<open>A transport whose second request fails.\<close>

definition flaky_transport :: transport where
  "flaky_transport hist req =
     (if length hist = 1 then Inl (TransportError ''ECONNRESET'') else page_transport hist req)"

definition query_options :: "string \<Rightarrow> options" where
  "query_options q = \<lparr>query = Some q, startIndex = Undefined, sets = Undefined, field = None\<rparr>"

definition field_options :: "string \<Rightarrow> string \<Rightarrow> options" where
  "field_options q f = \<lparr>query = Some q, startIndex = Undefined, sets = Undefined, field = Some f\<rparr>"

text \<open>Calls used as examples.\<close>

definition two_pages :: options where
  "two_pages = \<lparr>query = Some ''x'', startIndex = Undefined, sets = Num 2, field = None\<rparr>"

definition three_pages :: options where
  "three_pages = \<lparr>query = Some ''x'', startIndex = Num 7, sets = Num 3, field = None\<rparr>"

definition flaky_search :: options where
  "flaky_search = \<lparr>query = Some ''x'', startIndex = Undefined, sets = Num 3, field = None\<rparr>"

text \<open>A client with a logger and a configured page-set count of 2.\<close>

definition two_sets_client :: state where
  "two_sets_client =
     GoogleBooks (no_options\<lparr>opt_logger := Some LogObject, opt_setsToFetch := Num 2\<rparr>) 0"


section \<open>Properties\<close>

lemmas client_defs = logging_client_def GoogleBooks_def merge_settings_def no_options_def
  defaults_def

subsection \<open>Objects and job lists\<close>

lemma map_of_replace_prop:
  "k \<in> set (map fst ps) \<Longrightarrow> map_of (replace_prop k v ps) = (map_of ps)(k \<mapsto> v)"
  by (induction ps) (fastforce simp: fun_eq_iff)+

lemma map_of_insert_index:
  "k \<notin> set (map fst ps) \<Longrightarrow> map_of (insert_index k v ps) = (map_of ps)(k \<mapsto> v)"
  by (induction ps) (auto simp: fun_eq_iff)

lemma map_of_append_new:
  assumes "k \<notin> set (map fst ps)"
  shows "map_of (ps @ [(k, v)]) = (map_of ps)(k \<mapsto> v)"
proof -
  have "map_of ps k = None"
    using assms by (simp add: map_of_eq_None_iff)
  then show ?thesis
    by (auto simp: fun_eq_iff map_add_def split: option.splits)
qed

lemma map_of_set_prop: "map_of (set_prop k v ps) = (map_of ps)(k \<mapsto> v)"
proof (cases "k \<in> set (map fst ps)")
  case True
  then show ?thesis
    using map_of_replace_prop [OF True] by (simp add: set_prop_def)
next
  case False
  show ?thesis
    using False map_of_insert_index [OF False] map_of_append_new [OF False]
    by (simp add: set_prop_def)
qed




lemma series_append:
  "series (xs @ ys) s =
     (case series xs s of
        (Inl e, s1) \<Rightarrow> (Inl e, s1)
      | (Inr bs, s1) \<Rightarrow>
          (case series ys s1 of
             (Inl e, s2) \<Rightarrow> (Inl e, s2)
           | (Inr cs, s2) \<Rightarrow> (Inr (bs @ cs), s2)))"
  by (induction xs arbitrary: s) (auto split: prod.splits sum.splits)

lemma series_length:
  "series jobs s = (Inr bs, s') \<Longrightarrow> length bs = length jobs"
  by (induction jobs arbitrary: s bs) (auto split: prod.splits sum.splits)

text \<open>The single-page fetcher never reads the page-set count of its options.\<close>

lemma createJob_sets: "createJob tr i (opts\<lparr>sets := v\<rparr>) = createJob tr i opts"
  by (rule ext)
     (simp add: createJob_def searchSingle_def buildRequest_def Let_def split: sum.splits)

subsection \<open>The page-set count\<close>

lemma no_digit_parse_unsigned: "\<forall>c \<in> set t. \<not> is_digit c \<Longrightarrow> parse_unsigned t = None"
  by (cases t) (auto simp: parse_unsigned_def)

lemma no_digit_parseInt:
  assumes "\<forall>c \<in> set t. \<not> is_digit c"
  shows "parseInt t = None"
proof (cases "dropWhile is_space t")
  case Nil
  show ?thesis unfolding parseInt_def Nil by simp
next
  case (Cons c cs)
  have "set (c # cs) \<subseteq> set t"
    using Cons set_dropWhileD [of _ is_space t] by auto
  then have "\<forall>c \<in> set (c # cs). \<not> is_digit c" using assms by blast
  then have "parse_unsigned (c # cs) = None" and "parse_unsigned cs = None"
    by (simp_all add: no_digit_parse_unsigned)
  then show ?thesis unfolding parseInt_def Cons by simp
qed

lemma parseInt_None_iff:
  "parseInt t = None \<longleftrightarrow>
     (case dropWhile is_space t of
        [] \<Rightarrow> True
      | c # cs \<Rightarrow>
          if c = CHR ''-'' \<or> c = CHR ''+'' then (case cs of [] \<Rightarrow> True | d # ds \<Rightarrow> \<not> is_digit d)
          else \<not> is_digit c)"
proof (cases "dropWhile is_space t")
  case Nil
  show ?thesis unfolding parseInt_def Nil by simp
next
  case (Cons c cs)
  show ?thesis
    unfolding parseInt_def Cons
    by (cases cs) (auto simp: parse_unsigned_def is_digit_def digit_val_def)
qed

lemma first_letter_parseInt:
  assumes "\<not> is_space c" and "\<not> is_digit c" and "c \<noteq> CHR ''-''" and "c \<noteq> CHR ''+''"
  shows "parseInt (c # cs) = None"
  using assms by (simp add: parseInt_None_iff)




text \<open>
  Claim C10: a search whose \<open>sets\<close> option is falsy (0, null, undefined, the empty string,
  false) is the sequential run of as many page fetches as the configured \<open>setsToFetch\<close>
  says, at the offsets 0, 40, 80 and so on; it is the same call as one that gives no count at
  all.
\<close>

theorem falsy_sets_falls_back_to_default:
  assumes "\<not> truthy v"
  shows "search tr (opts\<lparr>sets := v\<rparr>) s =
           series (map (\<lambda>i. createJob tr (40 * int i) opts)
                     [0 ..< nat (toInt (setsToFetch (settings s)))]) s \<and>
         search tr (opts\<lparr>sets := v\<rparr>) s = search tr (opts\<lparr>sets := Undefined\<rparr>) s"
  using assms by (simp add: search_def page_count_def createJob_sets increment_def)

theorem falsy_sets_falls_back_to_default_witness:
  "\<not> truthy (Num 0) \<and>
   toInt (setsToFetch (settings two_sets_client)) = 2 \<and>
   fst (search page_transport ((query_options ''x'')\<lparr>sets := Num 0\<rparr>) two_sets_client) =
     Inr [''page 0'', ''page 40''] \<and>
   map (\<lambda>r. map_of (qs r) ''startIndex'')
     (sent (snd (search page_transport ((query_options ''x'')\<lparr>sets := Num 0\<rparr>) two_sets_client))) =
     [Some (Num 0), Some (Num 40)] \<and>
   search page_transport ((query_options ''x'')\<lparr>sets := Num 0\<rparr>) two_sets_client =
     search page_transport ((query_options ''x'')\<lparr>sets := Undefined\<rparr>) two_sets_client"
proof -
  let ?run = "series (map (\<lambda>i. createJob page_transport (40 * int i) (query_options ''x''))
                     [0 ..< nat (toInt (setsToFetch (settings two_sets_client)))]) two_sets_client"
  have f: "\<not> truthy (Num 0)" by simp
  have d: "toInt (setsToFetch (settings two_sets_client)) = 2"
    by (simp add: two_sets_client_def GoogleBooks_def merge_settings_def no_options_def)
  have e: "fst ?run = Inr [''page 0'', ''page 40'']"
    by code_simp
  have g: "map (\<lambda>r. map_of (qs r) ''startIndex'') (sent (snd ?run)) = [Some (Num 0), Some (Num 40)]"
    by code_simp
  note fallback =
    falsy_sets_falls_back_to_default [OF f, of page_transport "query_options ''x''" two_sets_client]
  have eq: "search page_transport ((query_options ''x'')\<lparr>sets := Num 0\<rparr>) two_sets_client = ?run"
    by (rule conjunct1 [OF fallback])
  have same: "search page_transport ((query_options ''x'')\<lparr>sets := Num 0\<rparr>) two_sets_client =
     search page_transport ((query_options ''x'')\<lparr>sets := Undefined\<rparr>) two_sets_client"
    by (rule conjunct2 [OF fallback])
  have bodies: "fst (search page_transport ((query_options ''x'')\<lparr>sets := Num 0\<rparr>) two_sets_client) =
     Inr [''page 0'', ''page 40'']"
    unfolding eq by (rule e)
  have requests: "map (\<lambda>r. map_of (qs r) ''startIndex'')
     (sent (snd (search page_transport ((query_options ''x'')\<lparr>sets := Num 0\<rparr>) two_sets_client))) =
     [Some (Num 0), Some (Num 40)]"
    unfolding eq by (rule g)
  show ?thesis
    by (intro conjI f d bodies requests same)
qed

subsection \<open>Pagination\<close>

lemma upt_split: 
  assumes "k < n" shows "[0 ..< n] = [0 ..< k] @ k # [Suc k ..< n]"
proof -
  have "[0 ..< k + (n - k)] = [0 ..< k] @ [k ..< k + (n - k)]"
    by (rule upt_add_eq_append) simp
  then have "[0 ..< n] = [0 ..< k] @ [k ..< n]"
    using assms by simp
  also have "[k ..< n] = k # [Suc k ..< n]"
    using assms by (rule upt_conv_Cons)
  finally show ?thesis .
qed

lemma series_three:
  "series [j0, j1, j2] s = (Inr bodies, s') \<longleftrightarrow>
     (\<exists>b0 b1 b2 s1 s2. bodies = [b0, b1, b2] \<and> j0 s = (Inr b0, s1) \<and>
        j1 s1 = (Inr b1, s2) \<and> j2 s2 = (Inr b2, s'))"
  by (auto split: prod.splits sum.splits)

lemma search_all_or_nothing:
  "search tr opts s = (Inr bodies, s') \<Longrightarrow> length bodies = nat (page_count (settings s) opts)"
  by (auto simp: search_def dest: series_length)

text \<open>
  Claim C4: a search with \<open>sets = 3\<close> is the sequential run of exactly three page fetches,
  at start indices 0, 40 and 80 whatever start index the call itself carries, each fetch
  starting in the state the one before left; it succeeds exactly when the three fetches
  succeed one after the other, and then returns their three bodies in fetch order.
\<close>

theorem search_three_pages:
  assumes "sets opts = Num 3"
  shows "search tr opts s =
           series [createJob tr 0 opts, createJob tr 40 opts, createJob tr 80 opts] s \<and>
         (search tr opts s = (Inr bodies, s') \<longleftrightarrow>
            (\<exists>b0 b1 b2 s1 s2. bodies = [b0, b1, b2] \<and>
               searchSingle tr (opts\<lparr>startIndex := Num 0\<rparr>) s = (Inr b0, s1) \<and>
               searchSingle tr (opts\<lparr>startIndex := Num 40\<rparr>) s1 = (Inr b1, s2) \<and>
               searchSingle tr (opts\<lparr>startIndex := Num 80\<rparr>) s2 = (Inr b2, s')))"
proof -
  have n: "nat (page_count (settings s) opts) = 3"
    using assms by (simp add: page_count_def)
  have u: "[0 ..< (3::nat)] = [0, 1, 2]"
    by (simp add: upt_rec)
  have eq: "search tr opts s =
          series [createJob tr 0 opts, createJob tr 40 opts, createJob tr 80 opts] s"
    by (simp add: search_def n u increment_def)
  show ?thesis
    unfolding eq series_three by (simp add: createJob_def)
qed

theorem search_three_pages_witness:
  "sets three_pages = Num 3 \<and>
   search page_transport three_pages logging_client =
     series [createJob page_transport 0 three_pages, createJob page_transport 40 three_pages,
             createJob page_transport 80 three_pages] logging_client \<and>
   fst (search page_transport three_pages logging_client) =
     Inr [''page 0'', ''page 40'', ''page 80''] \<and>
   map uri (sent (snd (search page_transport three_pages logging_client))) =
     [apiUrl defaults, apiUrl defaults, apiUrl defaults] \<and>
   map (\<lambda>r. map_of (qs r) ''startIndex'') (sent (snd (search page_transport three_pages logging_client))) =
     [Some (Num 0), Some (Num 40), Some (Num 80)]"
proof -
  have h: "sets three_pages = Num 3" by (simp add: three_pages_def)
  have a: "fst (search page_transport three_pages logging_client) =
     Inr [''page 0'', ''page 40'', ''page 80'']" by code_simp
  have b: "map uri (sent (snd (search page_transport three_pages logging_client))) =
     [apiUrl defaults, apiUrl defaults, apiUrl defaults]" by code_simp
  have c: "map (\<lambda>r. map_of (qs r) ''startIndex'') (sent (snd (search page_transport three_pages logging_client))) =
     [Some (Num 0), Some (Num 40), Some (Num 80)]" by code_simp
  show ?thesis
    using search_three_pages [OF h, of page_transport logging_client] h a b c by simp
qed

text \<open>
  Claim C5: when the pages before page \<open>k\<close> have been fetched and the fetch of page \<open>k\<close>
  fails, the search ends there: the caller gets that very error and no list, and the state is
  the one the failing fetch left, so no later page has been asked for.
\<close>

theorem search_stops_at_first_failure:
  assumes "k < nat (page_count (settings s) opts)"
    and "series (map (\<lambda>i. createJob tr (increment * int i) opts) [0 ..< k]) s = (Inr bs, s1)"
    and "searchSingle tr (opts\<lparr>startIndex := Num (increment * int k)\<rparr>) s1 = (Inl e, s2)"
  shows "search tr opts s = (Inl e, s2)"
proof -
  let ?n = "nat (page_count (settings s) opts)"
  let ?job = "\<lambda>i. createJob tr (increment * int i) opts"
  have "[0 ..< ?n] = [0 ..< k] @ k # [Suc k ..< ?n]"
    using assms(1) by (rule upt_split)
  then have "map ?job [0 ..< ?n] = map ?job [0 ..< k] @ ?job k # map ?job [Suc k ..< ?n]"
    by simp
  then show ?thesis
    using assms(2,3) by (simp add: search_def series_append createJob_def)
qed

theorem search_stops_at_first_failure_witness:
  "fst (search flaky_transport flaky_search logging_client) = Inl (TransportError ''ECONNRESET'') \<and>
   length (sent (snd (search flaky_transport flaky_search logging_client))) = 2"
proof -
  let ?jobs = "map (\<lambda>i. createJob flaky_transport (increment * int i) flaky_search) [0 ..< 1]"
  let ?s1 = "snd (series ?jobs logging_client)"
  let ?r = "searchSingle flaky_transport (flaky_search\<lparr>startIndex := Num (increment * int 1)\<rparr>) ?s1"
  have k: "1 < nat (page_count (settings logging_client) flaky_search)"
    by (simp add: page_count_def flaky_search_def)
  have "fst (series ?jobs logging_client) = Inr [''page 0'']" by code_simp
  then have first: "series ?jobs logging_client = (Inr [''page 0''], ?s1)"
    by (simp add: prod_eq_iff)
  have "fst ?r = Inl (TransportError ''ECONNRESET'')" by code_simp
  then have second: "?r = (Inl (TransportError ''ECONNRESET''), snd ?r)"
    by (simp add: prod_eq_iff)
  have "search flaky_transport flaky_search logging_client =
          (Inl (TransportError ''ECONNRESET''), snd ?r)"
    by (rule search_stops_at_first_failure [OF k first second])
  moreover have "length (sent (snd (search flaky_transport flaky_search logging_client))) = 2"
    by code_simp
  ultimately show ?thesis by simp
qed

subsection \<open>The cache\<close>


lemma buildRequest_Inr:
  assumes "query opts = Some q" and "q \<noteq> []" and "has_log (logger (settings s))"
    and "resource_uri (apiUrl (settings s)) q = Inr u"
  shows "buildRequest opts s =
           (Inr \<lparr>uri = u,
                 qs = extend_obj (queryParams (settings s))
                        [(''q'', Str q), (''startIndex'', Num (normalise_startIndex (startIndex opts)))],
                 json = True\<rparr>,
            s\<lparr>settings := (settings s)\<lparr>queryParams :=
                 extend_obj (queryParams (settings s))
                   [(''q'', Str q), (''startIndex'', Num (normalise_startIndex (startIndex opts)))]\<rparr>\<rparr>)"
  using assms
  by (simp add: buildRequest_def check_notNull_notEmpty_def check_notNull_def Let_def)






subsection \<open>The settings object\<close>

text \<open>
  A single-page fetch leaves the cache options, the page-set count, the base URL and the logger
  alone, and of the query parameters it can only change \<open>q\<close> and \<open>startIndex\<close>.
\<close>

lemma searchCache_call_settings: "settings (snd (searchCache_call tr key req s)) = settings s"
  by (simp add: searchCache_call_def Let_def split: option.splits sum.splits)

lemma buildRequest_settings:
  shows "maxAge (settings (snd (buildRequest opts s))) = maxAge (settings s)"
    and "setsToFetch (settings (snd (buildRequest opts s))) = setsToFetch (settings s)"
    and "apiUrl (settings (snd (buildRequest opts s))) = apiUrl (settings s)"
    and "logger (settings (snd (buildRequest opts s))) = logger (settings s)"
    and "k \<noteq> ''q'' \<Longrightarrow> k \<noteq> ''startIndex'' \<Longrightarrow>
           map_of (queryParams (settings (snd (buildRequest opts s)))) k =
           map_of (queryParams (settings s)) k"
  by (simp_all add: buildRequest_def Let_def map_of_set_prop split: sum.splits)

lemma searchSingle_settings:
  shows "maxAge (settings (snd (searchSingle tr opts s))) = maxAge (settings s)"
    and "setsToFetch (settings (snd (searchSingle tr opts s))) = setsToFetch (settings s)"
    and "apiUrl (settings (snd (searchSingle tr opts s))) = apiUrl (settings s)"
    and "logger (settings (snd (searchSingle tr opts s))) = logger (settings s)"
    and "k \<noteq> ''q'' \<Longrightarrow> k \<noteq> ''startIndex'' \<Longrightarrow>
           map_of (queryParams (settings (snd (searchSingle tr opts s)))) k =
           map_of (queryParams (settings s)) k"
proof -
  have "settings (snd (searchSingle tr opts s)) = settings (snd (buildRequest opts s))"
    by (cases "buildRequest opts s")
       (auto simp: searchSingle_def searchCache_call_settings split: sum.splits)
  then show "maxAge (settings (snd (searchSingle tr opts s))) = maxAge (settings s)"
    and "setsToFetch (settings (snd (searchSingle tr opts s))) = setsToFetch (settings s)"
    and "apiUrl (settings (snd (searchSingle tr opts s))) = apiUrl (settings s)"
    and "logger (settings (snd (searchSingle tr opts s))) = logger (settings s)"
    and "k \<noteq> ''q'' \<Longrightarrow> k \<noteq> ''startIndex'' \<Longrightarrow>
           map_of (queryParams (settings (snd (searchSingle tr opts s)))) k =
           map_of (queryParams (settings s)) k"
    by (simp_all add: buildRequest_settings)
qed

text \<open>
  Claim C1 says that no field of the settings changes after construction. The code does not
  keep that for the query parameters: the fetcher merges the call's \<open>q\<close> and \<open>startIndex\<close>
  into the settings' own object. On a client with a logger, a two-page search for \<open>x\<close> leaves
  \<open>startIndex\<close> at 40 instead of 0 and adds the property \<open>q\<close>.
\<close>

theorem search_overwrites_settings_queryParams:
  "queryParams (settings logging_client) =
     [(''maxResults'', Num 40), (''startIndex'', Num 0), (''langRestrict'', Str ''en''),
      (''printType'', Str ''books'')] \<and>
   queryParams (settings (snd (search page_transport two_pages logging_client))) =
     [(''maxResults'', Num 40), (''startIndex'', Num 40), (''langRestrict'', Str ''en''),
      (''printType'', Str ''books''), (''q'', Str ''x'')]"
  by code_simp

subsection \<open>Identifier queries\<close>

lemma replace_first_prefix: "replace_first ''id:'' [] (''id:'' @ x) = x"
  by simp

lemma replace_first_absent: "c \<notin> set x \<Longrightarrow> replace_first [c] [] x = x"
  by (induction x) auto

lemma resource_uri_plain_id:
  assumes "x \<noteq> []" and "quote \<notin> set x"
  shows "resource_uri base (''id:'' @ x) = Inr (base @ ''/'' @ x)"
  using assms
  by (simp add: resource_uri_def replace_first_absent check_notNull_notEmpty_def check_notNull_def)

lemma resource_uri_empty_id: "resource_uri base ''id:'' = Inl InvalidIdentifier"
  by (simp add: resource_uri_def check_notNull_notEmpty_def check_notNull_def)

lemma resource_uri_search: "take 3 q \<noteq> ''id:'' \<Longrightarrow> resource_uri base q = Inr base"
  by (simp add: resource_uri_def)

text \<open>
  Claim C2 says that every quote character is stripped from the identifier. The code strips the
  first one only: the query \<open>id:"abc"\<close>, which is also what the field adapter builds for the
  field \<open>id\<close>, is sent to the resource \<open>abc"\<close>, and the query \<open>id:""\<close> is fetched rather
  than rejected as an empty identifier.
\<close>

theorem id_query_keeps_second_quote:
  "map uri (sent (snd (searchSingle page_transport
       (query_options (''id:'' @ [quote] @ ''abc'' @ [quote])) logging_client))) =
     [''https://www.googleapis.com/books/v1/volumes/abc'' @ [quote]] \<and>
   map uri (sent (snd (searchBy page_transport (field_options ''abc'' ''id'') logging_client))) =
     [''https://www.googleapis.com/books/v1/volumes/abc'' @ [quote]] \<and>
   fst (searchSingle page_transport (query_options (''id:'' @ [quote, quote])) logging_client) =
     Inr ''page 0''"
  by code_simp

text \<open>
  Against claim C3 as it is stated: the request of the query \<open>id:abc\<close> goes to the resource
  of the identifier and still carries all five query parameters.
\<close>

theorem id_request_has_query_parameters:
  "map uri (sent (snd (searchSingle page_transport (query_options ''id:abc'') logging_client))) =
     [''https://www.googleapis.com/books/v1/volumes/abc''] \<and>
   map qs (sent (snd (searchSingle page_transport (query_options ''id:abc'') logging_client))) =
     [[(''maxResults'', Num 40), (''startIndex'', Num 0), (''langRestrict'', Str ''en''),
       (''printType'', Str ''books''), (''q'', Str ''id:abc'')]]"
  by code_simp

text \<open>
  Claim C3, amended: for a query \<open>id:X\<close> with \<open>X\<close> non-empty and free of quote
  characters, on a client whose logger has a \<open>log\<close> method, the request built is the one for
  \<open>apiUrl/X\<close>, and it carries the same query parameters as a search request: the settings'
  parameters merged with \<open>q\<close> (the query text) and \<open>startIndex\<close> (the normalised start
  index). Only the URI is replaced; this request, parameters included, is what the memoized
  function and the transport are called with.
\<close>

theorem id_query_replaces_only_the_uri:
  assumes "query opts = Some (''id:'' @ x)" and "x \<noteq> []" and "quote \<notin> set x"
    and "has_log (logger (settings s))"
  shows "\<exists>req. fst (buildRequest opts s) = Inr req \<and>
           uri req = apiUrl (settings s) @ ''/'' @ x \<and>
           qs req = extend_obj (queryParams (settings s))
                      [(''q'', Str (''id:'' @ x)),
                       (''startIndex'', Num (normalise_startIndex (startIndex opts)))] \<and>
           map_of (qs req) ''q'' = Some (Str (''id:'' @ x)) \<and>
           map_of (qs req) ''startIndex'' = Some (Num (normalise_startIndex (startIndex opts))) \<and>
           searchSingle tr opts s =
             searchCache_call tr (fullUri req) req (snd (buildRequest opts s))"
proof -
  let ?params = "extend_obj (queryParams (settings s))
                   [(''q'', Str (''id:'' @ x)),
                    (''startIndex'', Num (normalise_startIndex (startIndex opts)))]"
  let ?req = "\<lparr>uri = apiUrl (settings s) @ ''/'' @ x, qs = ?params, json = True\<rparr>"
  have ne: "''id:'' @ x \<noteq> []" by simp
  have b: "buildRequest opts s =
             (Inr ?req, s\<lparr>settings := (settings s)\<lparr>queryParams := ?params\<rparr>\<rparr>)"
    by (rule buildRequest_Inr [OF assms(1) ne assms(4) resource_uri_plain_id [OF assms(2,3)]])
  have q: "map_of ?params ''q'' = Some (Str (''id:'' @ x))"
    by (simp add: map_of_set_prop)
  have i: "map_of ?params ''startIndex'' = Some (Num (normalise_startIndex (startIndex opts)))"
    by (simp add: map_of_set_prop)
  have "searchSingle tr opts s =
          searchCache_call tr (fullUri ?req) ?req (snd (buildRequest opts s))"
    by (simp add: searchSingle_def b)
  then show ?thesis using b q i by (intro exI [of _ ?req]) simp
qed

theorem id_query_replaces_only_the_uri_witness:
  "\<exists>req. fst (buildRequest (query_options ''id:abc'') logging_client) = Inr req \<and>
     uri req = ''https://www.googleapis.com/books/v1/volumes/abc'' \<and>
     qs req = [(''maxResults'', Num 40), (''startIndex'', Num 0), (''langRestrict'', Str ''en''),
               (''printType'', Str ''books''), (''q'', Str ''id:abc'')] \<and>
     map_of (qs req) ''q'' = Some (Str ''id:abc'')"
proof -
  have a: "query (query_options ''id:abc'') = Some (''id:'' @ ''abc'')"
    by (simp add: query_options_def)
  have b: "''abc'' \<noteq> []" by simp
  have c: "quote \<notin> set ''abc''" by (simp add: quote_def)
  have d: "has_log (logger (settings logging_client))" by (simp add: client_defs)
  have e: "apiUrl (settings logging_client) = ''https://www.googleapis.com/books/v1/volumes''"
    by (simp add: client_defs)
  have f: "queryParams (settings logging_client) =
     [(''maxResults'', Num 40), (''startIndex'', Num 0), (''langRestrict'', Str ''en''),
      (''printType'', Str ''books'')]"
    by (simp add: client_defs)
  have g: "normalise_startIndex (startIndex (query_options ''id:abc'')) = 0"
    by (simp add: query_options_def normalise_startIndex_def)
  from id_query_replaces_only_the_uri [OF a b c d, of page_transport]
  obtain req where r: "fst (buildRequest (query_options ''id:abc'') logging_client) = Inr req"
    "uri req = apiUrl (settings logging_client) @ ''/'' @ ''abc''"
    "qs req = extend_obj (queryParams (settings logging_client))
                      [(''q'', Str (''id:'' @ ''abc'')),
                       (''startIndex'', Num (normalise_startIndex (startIndex (query_options ''id:abc''))))]"
    "map_of (qs req) ''q'' = Some (Str (''id:'' @ ''abc''))"
    by blast
  show ?thesis
    using r by (intro exI [of _ req]) (simp add: e f g set_prop_def is_index_def canonical_digits_def is_digit_def digit_val_def)
qed

subsection \<open>Field search\<close>

lemma fields_get_unknown:
  assumes "f \<notin> fst ` set fields_obj" and "f \<notin> fst ` set object_prototype"
  shows "fields_get f = None"
proof -
  have "map_of fields_obj f = None" using assms(1) by (simp add: map_of_eq_None_iff)
  moreover have "map_of object_prototype f = None" using assms(2) by (simp add: map_of_eq_None_iff)
  ultimately show ?thesis by (simp add: fields_get_def)
qed

lemma fields_get_recognised:
  "map_of fields_obj f = Some p \<Longrightarrow> fields_get f = Some p"
  by (simp add: fields_get_def)

lemma searchBy_rejects:
  shows "query opts = None \<Longrightarrow> searchBy tr opts s = (Inl InvalidQuery, s)"
    and "query opts = Some [] \<Longrightarrow> searchBy tr opts s = (Inl InvalidQuery, s)"
    and "query opts = Some q \<Longrightarrow> q \<noteq> [] \<Longrightarrow> field opts = None \<Longrightarrow>
           searchBy tr opts s = (Inl MissingField, s)"
    and "query opts = Some q \<Longrightarrow> q \<noteq> [] \<Longrightarrow> field opts = Some f \<Longrightarrow> fields_get f = None \<Longrightarrow>
           searchBy tr opts s = (Inl UnsupportedField, s)"
  by (simp_all add: searchBy_def check_notNull_notEmpty_def check_notNull_def)

text \<open>
  Claim C7 says that a field outside the eight recognised keys fails with UnsupportedField and
  reaches no transport. The code lets a name inherited from \<open>Object.prototype\<close> pass: on a
  client with a logger, the field \<open>constructor\<close> gives a successful search whose query text
  starts with the text of a native function, and one request is sent.
\<close>

theorem searchBy_accepts_inherited_property:
  "fst (searchBy page_transport (field_options ''x'' ''constructor'') logging_client) =
     Inr [''page 0''] \<and>
   map (\<lambda>r. map_of (qs r) ''q'')
       (sent (snd (searchBy page_transport (field_options ''x'' ''constructor'') logging_client))) =
     [Some (Str (''function Object() { [native code] }'' @ [quote] @ ''x'' @ [quote]))]"
  by code_simp

lemma searchBy_delegates:
  assumes "q \<noteq> []" and "map_of fields_obj f = Some p" and "has_log (logger (settings s))"
    and "query opts = Some q" and "field opts = Some f"
  shows "searchBy tr opts s =
           search tr \<lparr>query = Some (p @ [quote] @ q @ [quote]), startIndex = Undefined,
                      sets = Undefined, field = None\<rparr> s"
  using assms
  by (simp add: searchBy_def check_notNull_notEmpty_def check_notNull_def fields_get_def)

lemma searchBy_author_Tolkien:
  "searchBy page_transport (field_options ''Tolkien'' ''author'') logging_client =
     search page_transport (query_options (''inauthor:'' @ [quote] @ ''Tolkien'' @ [quote]))
       logging_client"
  by (simp add: query_options_def field_options_def
        searchBy_delegates [where q = "''Tolkien''" and f = "''author''" and p = "''inauthor:''"]
        fields_obj_def client_defs)

text \<open>
  Claim C8 says that for a non-empty value and a recognised field the adapter builds the
  prefixed, quoted query text and delegates to the paginator, with the result a search for that
  text would give. On a client built without a logger the code does not get that far: the call
  of \<open>settings.logger.log\<close> fails first and the TypeError is what the caller receives. With
  \<open>setsToFetch\<close> 0 a search for the same text succeeds with the empty list instead.
\<close>

theorem searchBy_fails_without_log_method:
  "searchBy page_transport (field_options ''Tolkien'' ''author'') default_client =
     (Inl LoggerTypeError, default_client) \<and>
   searchBy page_transport (field_options ''Tolkien'' ''author'') zero_sets_client =
     (Inl LoggerTypeError, zero_sets_client) \<and>
   search page_transport (query_options (''inauthor:'' @ [quote] @ ''Tolkien'' @ [quote]))
       zero_sets_client =
     (Inr [], zero_sets_client)"
  by code_simp

end
